theory Spec2Isabelle
  imports Main "HOL-Library.Sublist"
begin

section \<open>The MCP client of \<^verbatim>\<open>mcp-client-typescript/index.ts\<close>\<close>

text \<open>
  The class \<^verbatim>\<open>MCPClient\<close> bridges a language-model API (\<^verbatim>\<open>anthropic.messages.create\<close>)
  and a tool server reached through the MCP SDK (\<^verbatim>\<open>mcp.connect\<close>, \<^verbatim>\<open>mcp.listTools\<close>,
  \<^verbatim>\<open>mcp.callTool\<close>, \<^verbatim>\<open>mcp.close\<close>). Both are libraries outside the repository: they are
  parameters of the model (the record \<open>env\<close>), each a function of an abstract state of the
  outside world \<open>'w\<close> that returns its result, or the error it throws, and the next world.
  Every method returns, beside its result, the fields of \<^verbatim>\<open>this\<close> after the call, the world
  after the call and the list of external calls it made, in order, each with what it
  returned. Output on the console (\<^verbatim>\<open>console.log\<close>) is not modelled, nor is \<^verbatim>\<open>main\<close>, which
  wires the client to HTTP routes.

  The type \<open>'j\<close> stands for the JSON values that travel through the client unread: the
  \<^verbatim>\<open>input\<close> of a \<^verbatim>\<open>tool_use\<close> block and the input schema of a tool.
\<close>

subsection \<open>Data\<close>

text \<open>
  Values thrown: \<^verbatim>\<open>new Error(msg)\<close> of the client itself, the \<^verbatim>\<open>TypeError\<close> of the runtime on
  a property read of \<^verbatim>\<open>undefined\<close>, and what the two services throw.
\<close>

datatype error =
    Error string
  | TypeError string
  | ModelServiceError string
  | ToolHostError string
  | ConnectionError string

definition InvalidScriptType :: error where
  "InvalidScriptType = Error ''Server script must be a .js or .py file''"

datatype role = User | Assistant

record message =
  role :: role
  content :: string

text \<open>A content block of a model response; \<open>Other\<close> is any block type that is neither
  \<^verbatim>\<open>"text"\<close> nor \<^verbatim>\<open>"tool_use"\<close>.\<close>

datatype 'j block =
    Text string
  | ToolUse string 'j
  | Other

record 'j tool =
  name :: string
  description :: "string option"
  input_schema :: 'j

text \<open>A tool as \<^verbatim>\<open>mcp.listTools()\<close> lists it.\<close>

record 'j listed_tool =
  listed_name :: string
  listed_description :: "string option"
  inputSchema :: 'j

text \<open>The result of \<^verbatim>\<open>mcp.callTool\<close>; the client reads its \<^verbatim>\<open>content\<close> \<^verbatim>\<open>as string\<close>.\<close>

datatype tool_result = ToolResult (result_content: string)

record 'j request =
  rq_model :: string
  rq_max_tokens :: nat
  rq_messages :: "message list"
  rq_tools :: "'j tool list option"

record transport =
  command :: string
  args :: "string list"

text \<open>One external call, with what it returned (\<open>Inl\<close>: what it threw).\<close>

datatype 'j event =
    ModelCall "'j request" "error + 'j block list"
  | ToolCall string 'j "error + tool_result"
  | Connect transport
  | ListTools "error + 'j listed_tool list"
  | Close "error + unit"

record ('j, 'w) env =
  messages_create :: "'w \<Rightarrow> 'j request \<Rightarrow> (error + 'j block list) \<times> 'w"
  callTool :: "'w \<Rightarrow> string \<Rightarrow> 'j \<Rightarrow> (error + tool_result) \<times> 'w"
  connect :: "'w \<Rightarrow> transport \<Rightarrow> 'w"
  listTools :: "'w \<Rightarrow> (error + 'j listed_tool list) \<times> 'w"
  close :: "'w \<Rightarrow> (error + unit) \<times> 'w"
  JSON_stringify :: "'j \<Rightarrow> string"
  platform :: string
  execPath :: string

text \<open>The fields of \<^verbatim>\<open>MCPClient\<close> that the class assigns.\<close>

record 'j mcp_client =
  transport :: "transport option"
  tools :: "'j tool list"

definition new_MCPClient :: "'j mcp_client" where
  "new_MCPClient = \<lparr>transport = None, tools = []\<rparr>"

text \<open>What a method call leaves behind.\<close>

record ('r, 'j, 'w) returned =
  outcome :: "error + 'r"
  this_after :: "'j mcp_client"
  world_after :: "'w"
  calls :: "'j event list"

subsection \<open>Strings\<close>

definition endsWith :: "string \<Rightarrow> string \<Rightarrow> bool" where
  "endsWith s t = (length t \<le> length s \<and> drop (length s - length t) s = t)"

text \<open>\<^verbatim>\<open>Array.prototype.join\<close> on an array of strings.\<close>

fun join :: "string \<Rightarrow> string list \<Rightarrow> string" where
  "join sep [] = []"
| "join sep [x] = x"
| "join sep (x # y # ys) = x @ sep @ join sep (y # ys)"

definition calling_tool :: "('j, 'w) env \<Rightarrow> string \<Rightarrow> 'j \<Rightarrow> string" where
  "calling_tool env toolName toolArgs =
     ''[Calling tool '' @ toolName @ '' with args '' @ JSON_stringify env toolArgs @ '']''"

subsection \<open>connectToServer\<close>

text \<open>
  The body is one \<^verbatim>\<open>try\<close> block whose \<^verbatim>\<open>catch\<close> logs and throws the same value again, so
  every error leaves the method as it was thrown. \<^verbatim>\<open>this.transport\<close> is assigned before the
  calls to the SDK. \<^verbatim>\<open>this.mcp.connect(...)\<close> is not awaited: it changes the world, and
  what its promise rejects with does not reach the method.
\<close>

definition connectToServer ::
  "('j, 'w) env \<Rightarrow> 'j mcp_client \<Rightarrow> 'w \<Rightarrow> string \<Rightarrow> (unit, 'j, 'w) returned" where
  "connectToServer env this w serverScriptPath =
     (let isJs = endsWith serverScriptPath ''.js'';
          isPy = endsWith serverScriptPath ''.py''
      in if \<not> isJs \<and> \<not> isPy then
           \<lparr>outcome = Inl (Error ''Server script must be a .js or .py file''),
            this_after = this, world_after = w, calls = []\<rparr>
         else
           let cmd = (if isPy then (if platform env = ''win32'' then ''python'' else ''python3'')
                      else execPath env);
               tr = \<lparr>command = cmd, args = [serverScriptPath]\<rparr>;
               this1 = this\<lparr>transport := Some tr\<rparr>;
               w1 = connect env w tr
           in (case listTools env w1 of
                (Inl e, w2) \<Rightarrow>
                  \<lparr>outcome = Inl e, this_after = this1, world_after = w2,
                   calls = [Connect tr, ListTools (Inl e)]\<rparr>
              | (Inr listed, w2) \<Rightarrow>
                  \<lparr>outcome = Inr (),
                   this_after = this1\<lparr>tools :=
                     map (\<lambda>t. \<lparr>name = listed_name t, description = listed_description t,
                                input_schema = inputSchema t\<rparr>) listed\<rparr>,
                   world_after = w2,
                   calls = [Connect tr, ListTools (Inr listed)]\<rparr>))"

subsection \<open>processQuery\<close>

text \<open>The variables of the loop over \<^verbatim>\<open>response.content\<close>, and the world.\<close>

record 'w loop_state =
  messages :: "message list"
  finalText :: "string list"
  toolResults :: "tool_result list"
  world :: 'w

definition MODEL :: string where
  "MODEL = ''claude-3-5-sonnet-20241022''"

definition followup_request :: "message list \<Rightarrow> 'j request" where
  "followup_request msgs =
     \<lparr>rq_model = MODEL, rq_max_tokens = 1000, rq_messages = msgs, rq_tools = None\<rparr>"

definition initial_request :: "'j mcp_client \<Rightarrow> string \<Rightarrow> 'j request" where
  "initial_request this query =
     \<lparr>rq_model = MODEL, rq_max_tokens = 1000,
      rq_messages = [\<lparr>role = User, content = query\<rparr>], rq_tools = Some (tools this)\<rparr>"

text \<open>\<^verbatim>\<open>response.content[0].type === "text" ? response.content[0].text : ""\<close>, for a first
  block that is there.\<close>

fun first_text :: "'j block \<Rightarrow> string" where
  "first_text (Text t) = t"
| "first_text _ = []"

definition undefined_type :: error where
  "undefined_type = TypeError ''Cannot read properties of undefined (reading 'type')''"

text \<open>
  One round of the loop over \<^verbatim>\<open>response.content\<close>: the error thrown if any, the variables
  after, the calls made. A block that is neither text nor tool use is passed over. Every
  \<^verbatim>\<open>await\<close> stands outside any \<^verbatim>\<open>try\<close>: what a call throws leaves \<^verbatim>\<open>processQuery\<close>.
\<close>

fun process_block ::
  "('j, 'w) env \<Rightarrow> 'w loop_state \<Rightarrow> 'j block \<Rightarrow> error option \<times> 'w loop_state \<times> 'j event list" where
  "process_block env st (Text t) = (None, st\<lparr>finalText := finalText st @ [t]\<rparr>, [])"
| "process_block env st (ToolUse toolName toolArgs) =
     (case callTool env (world st) toolName toolArgs of
        (Inl e, w1) \<Rightarrow> (Some e, st\<lparr>world := w1\<rparr>, [ToolCall toolName toolArgs (Inl e)])
      | (Inr result, w1) \<Rightarrow>
          (let st1 = st\<lparr>toolResults := toolResults st @ [result],
                       finalText := finalText st @ [calling_tool env toolName toolArgs],
                       messages := messages st @ [\<lparr>role = User, content = result_content result\<rparr>],
                       world := w1\<rparr>;
              req = followup_request (messages st1);
              call1 = ToolCall toolName toolArgs (Inr result)
           in (case messages_create env w1 req of
               (Inl e, w2) \<Rightarrow> (Some e, st1\<lparr>world := w2\<rparr>, [call1, ModelCall req (Inl e)])
             | (Inr [], w2) \<Rightarrow>
                 (Some undefined_type, st1\<lparr>world := w2\<rparr>, [call1, ModelCall req (Inr [])])
             | (Inr (b # bs), w2) \<Rightarrow>
                 (None, st1\<lparr>finalText := finalText st1 @ [first_text b], world := w2\<rparr>,
                  [call1, ModelCall req (Inr (b # bs))]))))"
| "process_block env st Other = (None, st, [])"

fun dispatch ::
  "('j, 'w) env \<Rightarrow> 'w loop_state \<Rightarrow> 'j block list \<Rightarrow> error option \<times> 'w loop_state \<times> 'j event list" where
  "dispatch env st [] = (None, st, [])"
| "dispatch env st (b # bs) =
     (case process_block env st b of
        (Some e, st1, evs) \<Rightarrow> (Some e, st1, evs)
      | (None, st1, evs) \<Rightarrow>
          (case dispatch env st1 bs of (r, st2, evs2) \<Rightarrow> (r, st2, evs @ evs2)))"

definition processQuery ::
  "('j, 'w) env \<Rightarrow> 'j mcp_client \<Rightarrow> 'w \<Rightarrow> string \<Rightarrow> (string, 'j, 'w) returned" where
  "processQuery env this w query =
     (let req = initial_request this query
      in (case messages_create env w req of
           (Inl e, w1) \<Rightarrow>
             \<lparr>outcome = Inl e, this_after = this, world_after = w1,
              calls = [ModelCall req (Inl e)]\<rparr>
         | (Inr response, w1) \<Rightarrow>
             (case dispatch env \<lparr>messages = rq_messages req, finalText = [], toolResults = [],
                                 world = w1\<rparr> response of
                (Some e, st, evs) \<Rightarrow>
                  \<lparr>outcome = Inl e, this_after = this, world_after = world st,
                   calls = ModelCall req (Inr response) # evs\<rparr>
              | (None, st, evs) \<Rightarrow>
                  \<lparr>outcome = Inr (join ''\<newline>'' (finalText st)), this_after = this,
                   world_after = world st,
                   calls = ModelCall req (Inr response) # evs\<rparr>)))"

subsection \<open>cleanup\<close>

definition cleanup :: "('j, 'w) env \<Rightarrow> 'j mcp_client \<Rightarrow> 'w \<Rightarrow> (unit, 'j, 'w) returned" where
  "cleanup env this w =
     (case close env w of
        (r, w1) \<Rightarrow> \<lparr>outcome = r, this_after = this, world_after = w1, calls = [Close r]\<rparr>)"

subsection \<open>Observations on responses and on the calls made\<close>

fun is_ToolUse :: "'j block \<Rightarrow> bool" where
  "is_ToolUse (ToolUse n a) = True"
| "is_ToolUse _ = False"

text \<open>The strings of the \<open>Text\<close> blocks of a response, in order.\<close>

fun texts :: "'j block list \<Rightarrow> string list" where
  "texts [] = []"
| "texts (Text t # bs) = t # texts bs"
| "texts (_ # bs) = texts bs"

text \<open>Name and arguments of the \<open>ToolUse\<close> blocks of a response, in order.\<close>

fun tool_uses :: "'j block list \<Rightarrow> (string \<times> 'j) list" where
  "tool_uses [] = []"
| "tool_uses (ToolUse n a # bs) = (n, a) # tool_uses bs"
| "tool_uses (_ # bs) = tool_uses bs"

text \<open>Name and arguments of the \<^verbatim>\<open>callTool\<close> invocations among the calls made, in order.\<close>

fun tool_calls :: "'j event list \<Rightarrow> (string \<times> 'j) list" where
  "tool_calls [] = []"
| "tool_calls (ToolCall n a r # evs) = (n, a) # tool_calls evs"
| "tool_calls (_ # evs) = tool_calls evs"

text \<open>A call without what it returned.\<close>

datatype 'j call = ToModel | ToTool string 'j | ToHost

fun call_of :: "'j event \<Rightarrow> 'j call" where
  "call_of (ModelCall req r) = ToModel"
| "call_of (ToolCall n a r) = ToTool n a"
| "call_of _ = ToHost"

text \<open>The calls a response asks for when nothing fails: for each \<open>ToolUse\<close> block, in
  order, one \<^verbatim>\<open>callTool\<close> and then one model call.\<close>

fun dispatched_calls :: "'j block list \<Rightarrow> 'j call list" where
  "dispatched_calls [] = []"
| "dispatched_calls (ToolUse n a # bs) = ToTool n a # ToModel # dispatched_calls bs"
| "dispatched_calls (_ # bs) = dispatched_calls bs"

text \<open>What a call threw, if it threw.\<close>

fun failed :: "'j event \<Rightarrow> error option" where
  "failed (ModelCall req (Inl e)) = Some e"
| "failed (ToolCall n a (Inl e)) = Some e"
| "failed (ListTools (Inl e)) = Some e"
| "failed (Close (Inl e)) = Some e"
| "failed _ = None"

text \<open>
  \<open>blocks_matched conv bs evs\<close>: the calls \<open>evs\<close> are those of a loop over the blocks \<open>bs\<close>
  that starts with the conversation \<open>conv\<close>. A block that is no \<open>ToolUse\<close> block has no
  call. A \<open>ToolUse\<close> block has a \<^verbatim>\<open>callTool\<close> with its name and arguments; if that threw, it
  is the last call; if it returned, the call after it is a model call on the conversation
  so far plus exactly one \<open>User\<close> turn that carries the tool's result, and the blocks after
  are matched from that conversation on when the model call returned a response with a
  first block, while it is the last call otherwise.
\<close>

fun blocks_matched :: "message list \<Rightarrow> 'j block list \<Rightarrow> 'j event list \<Rightarrow> bool" where
  "blocks_matched conv [] evs = (evs = [])"
| "blocks_matched conv (ToolUse n a # bs) evs =
     (case evs of
        ToolCall n' a' res # evs1 \<Rightarrow>
          n' = n \<and> a' = a \<and>
          (case res of
             Inl e \<Rightarrow> evs1 = []
           | Inr result \<Rightarrow>
               (case evs1 of
                  ModelCall req r # evs2 \<Rightarrow>
                    rq_messages req =
                      conv @ [\<lparr>role = User, content = result_content result\<rparr>] \<and>
                    (case r of
                       Inr (b # rest) \<Rightarrow> blocks_matched (rq_messages req) bs evs2
                     | _ \<Rightarrow> evs2 = [])
                | _ \<Rightarrow> False))
      | _ \<Rightarrow> False)"
| "blocks_matched conv (Text t # bs) evs = blocks_matched conv bs evs"
| "blocks_matched conv (Other # bs) evs = blocks_matched conv bs evs"

definition ends_with_user :: "message list \<Rightarrow> bool" where
  "ends_with_user conv = (conv \<noteq> [] \<and> role (last conv) = User)"

text \<open>The conversations sent to the model, in order.\<close>

fun sent_conversations :: "'j event list \<Rightarrow> message list list" where
  "sent_conversations [] = []"
| "sent_conversations (ModelCall req r # evs) = rq_messages req # sent_conversations evs"
| "sent_conversations (_ # evs) = sent_conversations evs"

subsection \<open>Concrete services\<close>

text \<open>
  Services without a state of their own, for running the client on concrete inputs: the
  model answers by a function of the request, the tool host by a function of the tool's name
  and arguments. JSON values are represented by their serialised text, so that
  \<^verbatim>\<open>JSON.stringify\<close> is the identity.
\<close>

definition scripted ::
  "(string request \<Rightarrow> error + string block list) \<Rightarrow>
   (string \<Rightarrow> string \<Rightarrow> error + tool_result) \<Rightarrow> (string, unit) env" where
  "scripted model host =
     \<lparr>messages_create = (\<lambda>w req. (model req, w)),
      callTool = (\<lambda>w toolName toolArgs. (host toolName toolArgs, w)),
      connect = (\<lambda>w tr. w),
      listTools = (\<lambda>w. (Inr [], w)),
      close = (\<lambda>w. (Inr (), w)),
      JSON_stringify = (\<lambda>j. j),
      platform = ''linux'',
      execPath = ''/usr/bin/node''\<rparr>"

definition arithmetic_model :: "string request \<Rightarrow> error + string block list" where
  "arithmetic_model req = Inr [Text ''4'']"

definition no_host :: "string \<Rightarrow> string \<Rightarrow> error + tool_result" where
  "no_host toolName toolArgs = Inl (ToolHostError ''not connected'')"

text \<open>The model asks for the file listing when it has the catalog, and reports afterwards.\<close>

definition files_model :: "string request \<Rightarrow> error + string block list" where
  "files_model req =
     (if rq_tools req \<noteq> None then Inr [ToolUse ''list_files'' ''{}'']
      else Inr [Text ''Found: a.txt, b.txt''])"

definition files_host :: "string \<Rightarrow> string \<Rightarrow> error + tool_result" where
  "files_host toolName toolArgs = Inr (ToolResult ''a.txt, b.txt'')"

text \<open>Two tool uses between other blocks; each follow-up answer asks for one more tool.\<close>

definition two_tools_response :: "string block list" where
  "two_tools_response =
     [Text ''Looking.'', ToolUse ''list_files'' ''{}'', Other, ToolUse ''count_files'' ''{}'']"

definition two_tools_model :: "string request \<Rightarrow> error + string block list" where
  "two_tools_model req =
     (if rq_tools req \<noteq> None
      then Inr [Text ''Looking.'', ToolUse ''list_files'' ''{}'', Other, ToolUse ''count_files'' ''{}'']
      else Inr [Text ''ok'', ToolUse ''delete_files'' ''{}''])"

definition failing_host :: "string \<Rightarrow> string \<Rightarrow> error + tool_result" where
  "failing_host toolName toolArgs = Inl (ToolHostError ''tool host unreachable'')"

text \<open>A model whose follow-up answers have no content block.\<close>

definition silent_model :: "string request \<Rightarrow> error + string block list" where
  "silent_model req =
     (if rq_tools req \<noteq> None then Inr [Text ''Looking.'', ToolUse ''list_files'' ''{}'']
      else Inr [])"

text \<open>A model whose follow-up answers start with a block that is no text.\<close>

definition other_first_model :: "string request \<Rightarrow> error + string block list" where
  "other_first_model req =
     (if rq_tools req \<noteq> None then Inr [Text ''Looking.'', ToolUse ''list_files'' ''{}'']
      else Inr [Other, Text ''late''])"

text \<open>A tool host whose result names the tool.\<close>

definition named_host :: "string \<Rightarrow> string \<Rightarrow> error + tool_result" where
  "named_host toolName toolArgs = Inr (ToolResult (''result of '' @ toolName))"

definition looking_state :: "unit loop_state" where
  "looking_state =
     \<lparr>messages = [\<lparr>role = User, content = ''which files''\<rparr>], finalText = [''Looking.''],
      toolResults = [], world = ()\<rparr>"

definition listing_client :: "string mcp_client" where
  "listing_client =
     \<lparr>transport = Some \<lparr>command = ''/usr/bin/node'', args = [''server.js'']\<rparr>,
      tools = [\<lparr>name = ''list_files'', description = Some ''List the files'',
               input_schema = ''{}''\<rparr>]\<rparr>"

section \<open>Properties\<close>

lemmas run_simps = processQuery_def initial_request_def followup_request_def scripted_def
  new_MCPClient_def calling_tool_def Let_def

subsection \<open>Strings and blocks\<close>

lemma join_Cons: "ys \<noteq> [] \<Longrightarrow> join sep (x # ys) = x @ sep @ join sep ys"
  by (cases ys) simp_all

lemma join_contains_pair: "\<exists>p q. join sep (xs @ a # b # ys) = p @ a @ sep @ b @ q"
proof (induction xs)
  case Nil
  have "join sep (b # ys) = b @ (if ys = [] then [] else sep @ join sep ys)"
    by (cases ys) simp_all
  then have "join sep ([] @ a # b # ys) =
               [] @ a @ sep @ b @ (if ys = [] then [] else sep @ join sep ys)"
    by simp
  then show ?case by (intro exI)
next
  case (Cons x xs)
  then obtain p q where "join sep (xs @ a # b # ys) = p @ a @ sep @ b @ q" by blast
  then have "join sep ((x # xs) @ a # b # ys) = (x @ sep @ p) @ a @ sep @ b @ q"
    by (simp add: join_Cons)
  then show ?case by blast
qed

lemma texts_append: "texts (xs @ ys) = texts xs @ texts ys"
  by (induction xs rule: texts.induct) simp_all

lemma length_tool_uses: "length (tool_uses bs) = length (filter is_ToolUse bs)"
  by (induction bs rule: tool_uses.induct) simp_all

lemma sent_conversations_append:
  "sent_conversations (xs @ ys) = sent_conversations xs @ sent_conversations ys"
  by (induction xs rule: sent_conversations.induct) simp_all

lemma tool_calls_of:
  "map call_of evs = dispatched_calls bs \<Longrightarrow> tool_calls evs = tool_uses bs"
proof (induction bs arbitrary: evs rule: dispatched_calls.induct)
  case 1
  then show ?case by simp
next
  case (2 n a bs)
  then obtain e1 e2 evs' where evs: "evs = e1 # e2 # evs'" "call_of e1 = ToTool n a"
    "call_of e2 = ToModel" "map call_of evs' = dispatched_calls bs"
    by (cases evs; cases "tl evs") auto
  then show ?case using 2 by (cases e1; cases e2) auto
qed simp_all

subsection \<open>The loop\<close>

lemma dispatch_no_tool_use:
  "list_all (\<lambda>b. \<not> is_ToolUse b) bs \<Longrightarrow>
   dispatch env st bs = (None, st\<lparr>finalText := finalText st @ texts bs\<rparr>, [])"
proof (induction bs arbitrary: st)
  case Nil
  show ?case by simp
next
  case (Cons b bs)
  then show ?case by (cases b) simp_all
qed

lemma dispatch_append:
  "dispatch env st (xs @ ys) =
     (case dispatch env st xs of
        (Some e, st1, evs) \<Rightarrow> (Some e, st1, evs)
      | (None, st1, evs) \<Rightarrow>
          (case dispatch env st1 ys of (r, st2, evs2) \<Rightarrow> (r, st2, evs @ evs2)))"
  by (induction xs arbitrary: st) (auto split: prod.splits option.splits)

lemma processQuery_calls:
  "\<exists>r0 evs. calls (processQuery env this w query) =
     ModelCall (initial_request this query) r0 # evs"
  by (auto simp: processQuery_def Let_def split: prod.splits sum.splits option.splits)

lemma dispatch_calls_prefix:
  "dispatch env st bs = (r, st', evs) \<Longrightarrow>
     prefix (map call_of evs) (dispatched_calls bs) \<and>
     (r = None \<longrightarrow> map call_of evs = dispatched_calls bs)"
proof (induction bs arbitrary: st r st' evs)
  case Nil
  then show ?case by simp
next
  case (Cons b bs)
  show ?case
  proof (cases b)
    case (Text t)
    with Cons show ?thesis by (auto split: prod.splits)
  next
    case (ToolUse n a)
    with Cons.prems Cons.IH show ?thesis
      by (auto simp: Let_def split: prod.splits sum.splits list.splits)
  next
    case Other
    with Cons show ?thesis by (auto split: prod.splits)
  qed
qed

text \<open>A call that threw ends the round with what it threw; a round that goes on had no
  call that threw.\<close>

lemma process_block_failed:
  "process_block env st b = (r, st', evs) \<Longrightarrow> ev \<in> set evs \<Longrightarrow> failed ev = Some e \<Longrightarrow>
   r = Some e"
  by (cases b) (auto simp: Let_def split: prod.splits sum.splits list.splits)

lemma process_block_no_failure:
  "process_block env st b = (None, st', evs) \<Longrightarrow> ev \<in> set evs \<Longrightarrow> failed ev = None"
  by (cases b) (auto simp: Let_def split: prod.splits sum.splits list.splits)

lemma dispatch_failed:
  "dispatch env st bs = (r, st', evs) \<Longrightarrow> ev \<in> set evs \<Longrightarrow> failed ev = Some e \<Longrightarrow>
   r = Some e"
proof (induction bs arbitrary: st r st' evs)
  case Nil
  then show ?case by simp
next
  case (Cons b bs)
  obtain r1 st1 evs1 where pb: "process_block env st b = (r1, st1, evs1)"
    by (cases "process_block env st b") auto
  show ?case
  proof (cases r1)
    case (Some e1)
    with pb Cons.prems show ?thesis
      using process_block_failed [OF pb] by auto
  next
    case None
    obtain r2 st2 evs2 where d: "dispatch env st1 bs = (r2, st2, evs2)"
      by (cases "dispatch env st1 bs") auto
    from None pb d Cons.prems(1) have eq: "r = r2" "evs = evs1 @ evs2" by auto
    from Cons.prems(2) eq consider "ev \<in> set evs1" | "ev \<in> set evs2" by auto
    then show ?thesis
    proof cases
      case 1
      with process_block_no_failure pb None Cons.prems(3) show ?thesis by fastforce
    next
      case 2
      with Cons.IH [OF d] Cons.prems(3) eq show ?thesis by simp
    qed
  qed
qed

text \<open>A follow-up answer without a content block ends the round with the \<^verbatim>\<open>TypeError\<close>.\<close>

lemma process_block_empty:
  "process_block env st b = (r, st', evs) \<Longrightarrow> ModelCall req (Inr []) \<in> set evs \<Longrightarrow>
   r = Some undefined_type"
  by (cases b) (auto simp: Let_def split: prod.splits sum.splits list.splits)

lemma dispatch_empty:
  "dispatch env st bs = (r, st', evs) \<Longrightarrow> ModelCall req (Inr []) \<in> set evs \<Longrightarrow>
   r = Some undefined_type"
proof (induction bs arbitrary: st r st' evs)
  case Nil
  then show ?case by simp
next
  case (Cons b bs)
  obtain r1 st1 evs1 where pb: "process_block env st b = (r1, st1, evs1)"
    by (cases "process_block env st b") auto
  show ?case
  proof (cases r1)
    case (Some e1)
    with pb Cons.prems show ?thesis
      using process_block_empty [OF pb] by auto
  next
    case None
    obtain r2 st2 evs2 where d: "dispatch env st1 bs = (r2, st2, evs2)"
      by (cases "dispatch env st1 bs") auto
    from None pb d Cons.prems(1) have eq: "r = r2" "evs = evs1 @ evs2" by auto
    from Cons.prems(2) eq
    consider "ModelCall req (Inr []) \<in> set evs1" | "ModelCall req (Inr []) \<in> set evs2"
      by auto
    then show ?thesis
    proof cases
      case 1
      with process_block_empty [OF pb] None show ?thesis by blast
    next
      case 2
      with Cons.IH [OF d] eq show ?thesis by simp
    qed
  qed
qed

text \<open>The calls of one round, and the conversation after it.\<close>

lemma process_block_conv:
  "process_block env st b = (r, st', evs) \<Longrightarrow>
     list_all ends_with_user (sent_conversations evs) \<and>
     (evs = [] \<and> messages st' = messages st \<or>
      (\<exists>n a e. evs = [ToolCall n a (Inl e)] \<and> r = Some e) \<or>
      (\<exists>n a result r1. evs = [ToolCall n a (Inr result),
                               ModelCall (followup_request (messages st')) r1] \<and>
          messages st' = messages st @ [\<lparr>role = User, content = result_content result\<rparr>]))"
  by (cases b)
    (auto simp: Let_def ends_with_user_def followup_request_def
          split: prod.splits sum.splits list.splits)

lemma dispatch_ends_with_user:
  "dispatch env st bs = (r, st', evs) \<Longrightarrow> list_all ends_with_user (sent_conversations evs)"
proof (induction bs arbitrary: st r st' evs)
  case Nil
  then show ?case by simp
next
  case (Cons b bs)
  obtain r1 st1 evs1 where pb: "process_block env st b = (r1, st1, evs1)"
    by (cases "process_block env st b") auto
  from process_block_conv [OF pb]
  have u1: "list_all ends_with_user (sent_conversations evs1)" by simp
  show ?case
  proof (cases r1)
    case (Some e1)
    with pb Cons.prems have "evs = evs1" by simp
    with u1 show ?thesis by simp
  next
    case None
    obtain r2 st2 evs2 where d: "dispatch env st1 bs = (r2, st2, evs2)"
      by (cases "dispatch env st1 bs") auto
    from None pb d Cons.prems(1) have eq: "evs = evs1 @ evs2" by auto
    from Cons.IH [OF d] u1 eq show ?thesis
      by (simp add: sent_conversations_append)
  qed
qed

text \<open>The loop handles the blocks one at a time, in order.\<close>

lemma dispatch_blocks_matched:
  "dispatch env st bs = (r, st', evs) \<Longrightarrow> blocks_matched (messages st) bs evs"
proof (induction bs arbitrary: st r st' evs)
  case Nil
  then show ?case by simp
next
  case (Cons b bs)
  obtain r1 st1 evs1 where pb: "process_block env st b = (r1, st1, evs1)"
    by (cases "process_block env st b") auto
  obtain r2 st2 evs2 where d: "dispatch env st1 bs = (r2, st2, evs2)"
    by (cases "dispatch env st1 bs") auto
  note ih = Cons.IH [OF d]
  show ?case
  proof (cases b)
    case (Text t)
    with pb d Cons.prems ih show ?thesis by auto
  next
    case (ToolUse n a)
    with pb d Cons.prems ih show ?thesis
      by (auto simp: Let_def followup_request_def split: prod.splits sum.splits list.splits)
  next
    case Other
    with pb d Cons.prems ih show ?thesis by auto
  qed
qed

text \<open>No model call of the loop carries the tool catalog.\<close>

lemma process_block_followups:
  "process_block env st b = (r, st', evs) \<Longrightarrow> ModelCall req r0 \<in> set evs \<Longrightarrow>
   rq_tools req = None"
  by (cases b) (auto simp: Let_def followup_request_def split: prod.splits sum.splits list.splits)

lemma dispatch_followups:
  "dispatch env st bs = (r, st', evs) \<Longrightarrow> ModelCall req r0 \<in> set evs \<Longrightarrow>
   rq_tools req = None"
proof (induction bs arbitrary: st r st' evs)
  case Nil
  then show ?case by simp
next
  case (Cons b bs)
  obtain r1 st1 evs1 where pb: "process_block env st b = (r1, st1, evs1)"
    by (cases "process_block env st b") auto
  show ?case
  proof (cases r1)
    case (Some e1)
    with pb Cons.prems show ?thesis
      using process_block_followups [OF pb] by auto
  next
    case None
    obtain r2 st2 evs2 where d: "dispatch env st1 bs = (r2, st2, evs2)"
      by (cases "dispatch env st1 bs") auto
    from None pb d Cons.prems(1) have eq: "evs = evs1 @ evs2" by auto
    with Cons.prems(2) process_block_followups [OF pb] Cons.IH [OF d] show ?thesis
      by auto
  qed
qed

lemma processQuery_followups:
  assumes "ModelCall req r0 \<in> set (tl (calls (processQuery env this w query)))"
  shows "rq_tools req = None"
proof -
  let ?req = "initial_request this query"
  obtain r1 w1 where m: "messages_create env w ?req = (r1, w1)"
    by (cases "messages_create env w ?req") auto
  show ?thesis
  proof (cases r1)
    case (Inl e0)
    with m assms show ?thesis by (auto simp: processQuery_def)
  next
    case (Inr response)
    let ?st = "\<lparr>messages = rq_messages ?req, finalText = [], toolResults = [], world = w1\<rparr>"
    obtain r st' evs where d: "dispatch env ?st response = (r, st', evs)"
      by (cases "dispatch env ?st response") auto
    from m Inr d
    have c: "calls (processQuery env this w query) = ModelCall ?req (Inr response) # evs"
      by (cases r) (simp_all add: processQuery_def)
    with assms have "ModelCall req r0 \<in> set evs" by auto
    with dispatch_followups [OF d] show ?thesis by simp
  qed
qed

subsection \<open>Answers without tool use\<close>

text \<open>
  C1. When the initial model response contains no \<open>ToolUse\<close> block, \<^verbatim>\<open>processQuery\<close>
  returns the strings of the response's \<open>Text\<close> blocks joined by newline, unchanged, and the
  only external call it makes is the initial model call: no \<^verbatim>\<open>callTool\<close>, no follow-up.
\<close>

theorem processQuery_no_tool_use:
  assumes "messages_create env w (initial_request this query) = (Inr response, w1)"
    and "list_all (\<lambda>b. \<not> is_ToolUse b) response"
  shows "processQuery env this w query =
           \<lparr>outcome = Inr (join ''\<newline>'' (texts response)), this_after = this,
            world_after = w1,
            calls = [ModelCall (initial_request this query) (Inr response)]\<rparr>"
  using assms by (simp add: processQuery_def dispatch_no_tool_use)

text \<open>The query \<^verbatim>\<open>"what is 2+2"\<close> with the single text block \<^verbatim>\<open>"4"\<close> returns \<^verbatim>\<open>"4"\<close>.\<close>

theorem processQuery_no_tool_use_witness:
  "processQuery (scripted arithmetic_model no_host) new_MCPClient () ''what is 2+2'' =
     \<lparr>outcome = Inr ''4'', this_after = new_MCPClient, world_after = (),
      calls = [ModelCall (initial_request new_MCPClient ''what is 2+2'') (Inr [Text ''4''])]\<rparr>"
proof -
  have h: "messages_create (scripted arithmetic_model no_host) ()
             (initial_request new_MCPClient ''what is 2+2'') = (Inr [Text ''4''], ())"
    by (simp add: scripted_def arithmetic_model_def)
  have n: "list_all (\<lambda>b. \<not> is_ToolUse b) [Text ''4'' :: string block]" by simp
  from processQuery_no_tool_use [OF h n] show ?thesis by simp
qed

subsection \<open>Tool calls and their follow-ups\<close>

text \<open>
  C2, as the code has it. The claim as written (exactly N \<^verbatim>\<open>callTool\<close> invocations for N
  \<open>ToolUse\<close> blocks, for every query) fails when a call throws: the loop is left at once.
  With an initial response of two \<open>ToolUse\<close> blocks and a tool host that throws, one
  \<^verbatim>\<open>callTool\<close> invocation is made.
\<close>

theorem all_tool_uses_called_counterexample:
  "messages_create (scripted two_tools_model failing_host) ()
      (initial_request new_MCPClient ''how many files'') = (Inr two_tools_response, ()) \<and>
   length (filter is_ToolUse two_tools_response) = 2 \<and>
   length (tool_calls (calls (processQuery (scripted two_tools_model failing_host)
      new_MCPClient () ''how many files''))) = 1"
  by (simp add: run_simps two_tools_model_def failing_host_def two_tools_response_def)

text \<open>
  C2, amended. For every query whose initial response contains N \<open>ToolUse\<close> blocks,
  between blocks of other kinds in any order: the calls made are always an initial segment
  of the sequence "initial model call, then for each \<open>ToolUse\<close> block in order its
  \<^verbatim>\<open>callTool\<close> followed by its own model call"; and when \<^verbatim>\<open>processQuery\<close> returns a string
  (no call threw), the calls are exactly that sequence, so exactly N \<^verbatim>\<open>callTool\<close>
  invocations occur, in the order of the blocks, each followed by its follow-up before the
  next one. The sequence depends on the initial response only: a \<open>ToolUse\<close> block in a
  follow-up response adds no call.
\<close>

theorem processQuery_tool_calls:
  assumes "messages_create env w (initial_request this query) = (Inr response, w1)"
  shows "prefix (map call_of (calls (processQuery env this w query)))
           (ToModel # dispatched_calls response) \<and>
         (\<forall>s. outcome (processQuery env this w query) = Inr s \<longrightarrow>
            map call_of (calls (processQuery env this w query)) =
              ToModel # dispatched_calls response \<and>
            tool_calls (calls (processQuery env this w query)) = tool_uses response \<and>
            length (tool_calls (calls (processQuery env this w query))) =
              length (filter is_ToolUse response))"
proof -
  let ?req = "initial_request this query"
  let ?st = "\<lparr>messages = rq_messages ?req, finalText = [], toolResults = [], world = w1\<rparr>"
  obtain r st' evs where d: "dispatch env ?st response = (r, st', evs)"
    by (cases "dispatch env ?st response") auto
  from assms d
  have c: "calls (processQuery env this w query) = ModelCall ?req (Inr response) # evs"
    by (cases r) (simp_all add: processQuery_def)
  from assms d have o: "outcome (processQuery env this w query) = Inr s \<Longrightarrow> r = None" for s
    by (cases r) (simp_all add: processQuery_def)
  note p = dispatch_calls_prefix [OF d]
  from p c have 1: "prefix (map call_of (calls (processQuery env this w query)))
           (ToModel # dispatched_calls response)" by simp
  have 2: "map call_of (calls (processQuery env this w query)) =
              ToModel # dispatched_calls response \<and>
            tool_calls (calls (processQuery env this w query)) = tool_uses response \<and>
            length (tool_calls (calls (processQuery env this w query))) =
              length (filter is_ToolUse response)"
    if "outcome (processQuery env this w query) = Inr s" for s
  proof -
    from o [OF that] p have m: "map call_of evs = dispatched_calls response" by simp
    from tool_calls_of [OF m] m c show ?thesis by (simp add: length_tool_uses)
  qed
  from 1 2 show ?thesis by blast
qed

theorem processQuery_tool_calls_witness:
  "map call_of (calls (processQuery (scripted two_tools_model files_host) new_MCPClient ()
       ''how many files''))
     = [ToModel, ToTool ''list_files'' ''{}'', ToModel, ToTool ''count_files'' ''{}'', ToModel] \<and>
   tool_calls (calls (processQuery (scripted two_tools_model files_host) new_MCPClient ()
       ''how many files''))
     = [(''list_files'', ''{}''), (''count_files'', ''{}'')]"
proof -
  let ?env = "scripted two_tools_model files_host"
  have init: "messages_create ?env () (initial_request new_MCPClient ''how many files'') =
                (Inr two_tools_response, ())"
    by (simp add: scripted_def two_tools_model_def initial_request_def two_tools_response_def)
  have ret: "outcome (processQuery ?env new_MCPClient () ''how many files'') =
      Inr ''Looking.\<newline>[Calling tool list_files with args {}]\<newline>ok\<newline>[Calling tool count_files with args {}]\<newline>ok''"
    by (simp add: run_simps two_tools_model_def files_host_def)
  from processQuery_tool_calls [OF init] ret show ?thesis
    by (simp add: two_tools_response_def)
qed

text \<open>
  C3. When the initial response contains exactly one \<open>ToolUse\<close> block, with name \<open>n\<close> and
  arguments \<open>a\<close>, the tool call succeeds and \<^verbatim>\<open>processQuery\<close> returns a string, that string
  is the join by newline of the texts of the blocks before the \<open>ToolUse\<close> block, the line
  \<^verbatim>\<open>[Calling tool n with args json(a)]\<close>, the text of the follow-up response (of its first
  block), and the texts of the blocks after: the trace line is followed at once by a
  newline and the follow-up's text.
\<close>

theorem processQuery_one_tool_use:
  assumes init: "messages_create env w (initial_request this query) =
                   (Inr (pre @ ToolUse toolName toolArgs # post), w1)"
    and pre: "list_all (\<lambda>b. \<not> is_ToolUse b) pre"
    and post: "list_all (\<lambda>b. \<not> is_ToolUse b) post"
    and tool: "callTool env w1 toolName toolArgs = (Inr result, w2)"
    and fu: "messages_create env w2
               (followup_request [\<lparr>role = User, content = query\<rparr>,
                                  \<lparr>role = User, content = result_content result\<rparr>]) = (r, w3)"
    and ret: "outcome (processQuery env this w query) = Inr s"
  shows "\<exists>b bs. r = Inr (b # bs) \<and>
           s = join ''\<newline>''
                 (texts pre @
                  [''[Calling tool '' @ toolName @ '' with args '' @
                     JSON_stringify env toolArgs @ '']'', first_text b] @
                  texts post) \<and>
           (\<exists>p q. s = p @ ''[Calling tool '' @ toolName @ '' with args '' @
                     JSON_stringify env toolArgs @ '']'' @ ''\<newline>'' @ first_text b @ q)"
proof -
  let ?req = "initial_request this query"
  let ?line = "calling_tool env toolName toolArgs"
  have rq: "rq_messages ?req = [\<lparr>role = User, content = query\<rparr>]"
    by (simp add: initial_request_def)
  have o: "outcome (processQuery env this w query) =
             (case r of
                Inl e \<Rightarrow> Inl e
              | Inr [] \<Rightarrow> Inl undefined_type
              | Inr (b # bs) \<Rightarrow>
                  Inr (join ''\<newline>'' (texts pre @ [?line, first_text b] @ texts post)))"
    using init pre post tool fu
    by (simp add: processQuery_def dispatch_append dispatch_no_tool_use rq Let_def
             split: sum.splits list.splits)
  with ret obtain b bs where r: "r = Inr (b # bs)"
    and s: "s = join ''\<newline>'' (texts pre @ [?line, first_text b] @ texts post)"
    by (auto split: sum.splits list.splits)
  from join_contains_pair [of "''\<newline>''" "texts pre" ?line "first_text b" "texts post"] s
  obtain p q where "s = p @ ?line @ ''\<newline>'' @ first_text b @ q"
    by auto
  then have pq: "s = p @ ''[Calling tool '' @ toolName @ '' with args '' @
                     JSON_stringify env toolArgs @ '']'' @ ''\<newline>'' @ first_text b @ q"
    by (simp add: calling_tool_def)
  from s have s': "s = join ''\<newline>''
                 (texts pre @
                  [''[Calling tool '' @ toolName @ '' with args '' @
                     JSON_stringify env toolArgs @ '']'', first_text b] @
                  texts post)"
    by (simp add: calling_tool_def)
  from r s' pq show ?thesis by blast
qed

text \<open>The query \<^verbatim>\<open>"list files"\<close>: one \<open>ToolUse\<close> of \<^verbatim>\<open>list_files\<close> with input \<^verbatim>\<open>{}\<close>, the
  tool host returns \<^verbatim>\<open>"a.txt, b.txt"\<close>, the follow-up says \<^verbatim>\<open>"Found: a.txt, b.txt"\<close>.\<close>

theorem processQuery_one_tool_use_witness:
  "outcome (processQuery (scripted files_model files_host) new_MCPClient () ''list files'') =
     Inr ''[Calling tool list_files with args {}]\<newline>Found: a.txt, b.txt''"
proof -
  let ?env = "scripted files_model files_host"
  have init: "messages_create ?env () (initial_request new_MCPClient ''list files'') =
                (Inr ([] @ ToolUse ''list_files'' ''{}'' # []), ())"
    by (simp add: scripted_def files_model_def initial_request_def)
  have pre: "list_all (\<lambda>b. \<not> is_ToolUse b) ([] :: string block list)" by simp
  have tool: "callTool ?env () ''list_files'' ''{}'' = (Inr (ToolResult ''a.txt, b.txt''), ())"
    by (simp add: scripted_def files_host_def)
  have fu: "messages_create ?env ()
              (followup_request [\<lparr>role = User, content = ''list files''\<rparr>,
                 \<lparr>role = User, content = result_content (ToolResult ''a.txt, b.txt'')\<rparr>]) =
              (Inr [Text ''Found: a.txt, b.txt''], ())"
    by (simp add: scripted_def files_model_def followup_request_def)
  have ret: "outcome (processQuery ?env new_MCPClient () ''list files'') =
      Inr ''[Calling tool list_files with args {}]\<newline>Found: a.txt, b.txt''"
    by (simp add: run_simps files_model_def files_host_def)
  from processQuery_one_tool_use [OF init pre pre tool fu ret] ret show ?thesis by simp
qed

text \<open>
  The round of a \<open>ToolUse\<close> block whose tool call returns and whose follow-up response has
  a first block: the follow-up request carries the conversation plus one \<open>User\<close> turn with
  the tool's result and no tool catalog; the trace line and the first block's text (the
  empty string if it is no \<open>Text\<close> block) are appended; the blocks after the first are
  not read.
\<close>

lemma process_block_followup:
  assumes "callTool env (world st) toolName toolArgs = (Inr result, w1)"
    and "messages_create env w1
           \<lparr>rq_model = MODEL, rq_max_tokens = 1000,
            rq_messages = messages st @ [\<lparr>role = User, content = result_content result\<rparr>],
            rq_tools = None\<rparr> = (Inr (b # bs), w2)"
  shows "process_block env st (ToolUse toolName toolArgs) =
           (None,
            st\<lparr>toolResults := toolResults st @ [result],
               finalText := finalText st @
                 [calling_tool env toolName toolArgs, (case b of Text t \<Rightarrow> t | _ \<Rightarrow> [])],
               messages := messages st @ [\<lparr>role = User, content = result_content result\<rparr>],
               world := w2\<rparr>,
            [ToolCall toolName toolArgs (Inr result),
             ModelCall \<lparr>rq_model = MODEL, rq_max_tokens = 1000,
               rq_messages = messages st @ [\<lparr>role = User, content = result_content result\<rparr>],
               rq_tools = None\<rparr> (Inr (b # bs))])"
  using assms by (cases b) (simp_all add: Let_def followup_request_def)

text \<open>A follow-up response that starts with a block that is no text: the empty string is
  appended, and the text block after it is not read.\<close>

lemma followup_other_first_run:
  "outcome (processQuery (scripted other_first_model files_host) new_MCPClient ()
      ''which files'') =
     Inr ''Looking.\<newline>[Calling tool list_files with args {}]\<newline>''"
  by (simp add: run_simps other_first_model_def files_host_def)

text \<open>
  C4. After every successful tool call the follow-up model call is made on the updated
  conversation and without tool catalog, and of its response the first block alone is
  read: its string is appended if it is a \<open>Text\<close> block, the empty string otherwise. The
  code does not do so when the follow-up response has no block at all: on the query
  \<^verbatim>\<open>"which files"\<close>, with an initial response of a text and one \<open>ToolUse\<close> block, a tool call
  that returns \<^verbatim>\<open>"a.txt, b.txt"\<close> and a follow-up response with an empty content, the
  follow-up is made as the claim says, and then \<^verbatim>\<open>response.content[0].type\<close> throws the
  \<^verbatim>\<open>TypeError\<close>: \<^verbatim>\<open>processQuery\<close> returns no string, and in the loop nothing is appended after
  the trace line.
\<close>

theorem followup_without_blocks:
  "processQuery (scripted silent_model files_host) new_MCPClient () ''which files'' =
     \<lparr>outcome = Inl (TypeError ''Cannot read properties of undefined (reading 'type')''),
      this_after = new_MCPClient, world_after = (),
      calls =
        [ModelCall (initial_request new_MCPClient ''which files'')
           (Inr [Text ''Looking.'', ToolUse ''list_files'' ''{}'']),
         ToolCall ''list_files'' ''{}'' (Inr (ToolResult ''a.txt, b.txt'')),
         ModelCall \<lparr>rq_model = MODEL, rq_max_tokens = 1000,
                    rq_messages = [\<lparr>role = User, content = ''which files''\<rparr>,
                                   \<lparr>role = User, content = ''a.txt, b.txt''\<rparr>],
                    rq_tools = None\<rparr> (Inr [])]\<rparr> \<and>
   process_block (scripted silent_model files_host) looking_state
       (ToolUse ''list_files'' ''{}'') =
     (Some (TypeError ''Cannot read properties of undefined (reading 'type')''),
      \<lparr>messages = [\<lparr>role = User, content = ''which files''\<rparr>,
                   \<lparr>role = User, content = ''a.txt, b.txt''\<rparr>],
       finalText = [''Looking.'', ''[Calling tool list_files with args {}]''],
       toolResults = [ToolResult ''a.txt, b.txt''], world = ()\<rparr>,
      [ToolCall ''list_files'' ''{}'' (Inr (ToolResult ''a.txt, b.txt'')),
       ModelCall \<lparr>rq_model = MODEL, rq_max_tokens = 1000,
                  rq_messages = [\<lparr>role = User, content = ''which files''\<rparr>,
                                 \<lparr>role = User, content = ''a.txt, b.txt''\<rparr>],
                  rq_tools = None\<rparr> (Inr [])])"
  by (simp add: run_simps silent_model_def files_host_def looking_state_def undefined_type_def)

subsection \<open>Failures\<close>

text \<open>
  C5. If any model call or any \<^verbatim>\<open>callTool\<close> invocation of a run of \<^verbatim>\<open>processQuery\<close> throws,
  \<^verbatim>\<open>processQuery\<close> throws that same error: its outcome is the error and no string, also
  when text had been collected before.
\<close>

theorem processQuery_failure:
  assumes "ev \<in> set (calls (processQuery env this w query))" and "failed ev = Some e"
  shows "outcome (processQuery env this w query) = Inl e"
proof -
  let ?req = "initial_request this query"
  obtain r0 w1 where m: "messages_create env w ?req = (r0, w1)"
    by (cases "messages_create env w ?req") auto
  show ?thesis
  proof (cases r0)
    case (Inl e0)
    with m assms show ?thesis by (auto simp: processQuery_def)
  next
    case (Inr response)
    let ?st = "\<lparr>messages = rq_messages ?req, finalText = [], toolResults = [], world = w1\<rparr>"
    obtain r st' evs where d: "dispatch env ?st response = (r, st', evs)"
      by (cases "dispatch env ?st response") auto
    from m Inr d
    have c: "calls (processQuery env this w query) = ModelCall ?req (Inr response) # evs"
      by (cases r) (simp_all add: processQuery_def)
    with assms have "ev \<in> set evs" by auto
    with dispatch_failed [OF d] assms(2) have "r = Some e" by simp
    with m Inr d show ?thesis by (simp add: processQuery_def)
  qed
qed

text \<open>The tool host throws after the text \<^verbatim>\<open>"Looking."\<close> has been collected.\<close>

theorem processQuery_failure_witness:
  "outcome (processQuery (scripted two_tools_model failing_host) new_MCPClient ()
      ''how many files'')
     = Inl (ToolHostError ''tool host unreachable'')"
proof -
  let ?ev = "ToolCall ''list_files'' ''{}'' (Inl (ToolHostError ''tool host unreachable''))"
  have 1: "?ev \<in> set (calls (processQuery (scripted two_tools_model failing_host)
                 new_MCPClient () ''how many files''))"
    by (simp add: run_simps two_tools_model_def failing_host_def)
  have 2: "failed ?ev = Some (ToolHostError ''tool host unreachable'')" by simp
  from processQuery_failure [OF 1 2] show ?thesis .
qed

text \<open>
  C9. If a follow-up model call of a run (any model call after the initial one; each
  follows a successful tool call) returns a response with no content block,
  \<^verbatim>\<open>processQuery\<close> throws the \<^verbatim>\<open>TypeError\<close> of reading \<^verbatim>\<open>type\<close> of \<^verbatim>\<open>undefined\<close>; it does not
  append the empty string and go on.
\<close>

theorem processQuery_empty_followup:
  assumes "ModelCall req (Inr []) \<in> set (tl (calls (processQuery env this w query)))"
  shows "outcome (processQuery env this w query) = Inl undefined_type"
proof -
  let ?req = "initial_request this query"
  obtain r0 w1 where m: "messages_create env w ?req = (r0, w1)"
    by (cases "messages_create env w ?req") auto
  show ?thesis
  proof (cases r0)
    case (Inl e0)
    with m assms show ?thesis by (auto simp: processQuery_def)
  next
    case (Inr response)
    let ?st = "\<lparr>messages = rq_messages ?req, finalText = [], toolResults = [], world = w1\<rparr>"
    obtain r st' evs where d: "dispatch env ?st response = (r, st', evs)"
      by (cases "dispatch env ?st response") auto
    from m Inr d
    have c: "calls (processQuery env this w query) = ModelCall ?req (Inr response) # evs"
      by (cases r) (simp_all add: processQuery_def)
    with assms have "ModelCall req (Inr []) \<in> set evs" by auto
    with dispatch_empty [OF d] have "r = Some undefined_type" by simp
    with m Inr d show ?thesis by (simp add: processQuery_def)
  qed
qed

theorem processQuery_empty_followup_witness:
  "outcome (processQuery (scripted silent_model files_host) new_MCPClient () ''list files'')
     = Inl (TypeError ''Cannot read properties of undefined (reading 'type')'')"
proof -
  let ?req = "followup_request [\<lparr>role = User, content = ''list files''\<rparr>,
                 \<lparr>role = User, content = ''a.txt, b.txt''\<rparr>] :: string request"
  have 1: "ModelCall ?req (Inr []) \<in> set (tl (calls (processQuery
              (scripted silent_model files_host) new_MCPClient () ''list files'')))"
    by (simp add: run_simps silent_model_def files_host_def)
  from processQuery_empty_followup [OF 1] show ?thesis by (simp add: undefined_type_def)
qed

subsection \<open>Connecting\<close>

text \<open>
  C6. For every path that ends neither in \<^verbatim>\<open>.js\<close> nor in \<^verbatim>\<open>.py\<close>, \<^verbatim>\<open>connectToServer\<close>
  throws the error \<open>InvalidScriptType\<close> and connects nothing: the fields of the client (its
  transport, its tool catalog) are as before, the world is as before, and no external call
  is made, neither \<^verbatim>\<open>connect\<close> nor \<^verbatim>\<open>listTools\<close>.
\<close>

theorem connectToServer_invalid_script:
  assumes "\<not> endsWith serverScriptPath ''.js''" and "\<not> endsWith serverScriptPath ''.py''"
  shows "connectToServer env this w serverScriptPath =
           \<lparr>outcome = Inl InvalidScriptType, this_after = this, world_after = w, calls = []\<rparr>"
  using assms by (simp add: connectToServer_def InvalidScriptType_def)

text \<open>On a new client: no transport, and the catalog stays empty.\<close>

theorem connectToServer_invalid_script_witness:
  "connectToServer (scripted files_model files_host) new_MCPClient () ''server.ts'' =
     \<lparr>outcome = Inl (Error ''Server script must be a .js or .py file''),
      this_after = \<lparr>transport = None, tools = []\<rparr>, world_after = (), calls = []\<rparr>"
proof -
  have 1: "\<not> endsWith ''server.ts'' ''.js''" by (simp add: endsWith_def)
  have 2: "\<not> endsWith ''server.ts'' ''.py''" by (simp add: endsWith_def)
  from connectToServer_invalid_script [OF 1 2] show ?thesis
    by (simp add: InvalidScriptType_def new_MCPClient_def)
qed

subsection \<open>The conversation\<close>

text \<open>
  C7, as the code has it. The claim as written (every \<open>ToolUse\<close> block has its result turn
  in the conversation before the next model call) fails for the \<open>ToolUse\<close> blocks of a
  follow-up response, which the loop never reads beyond the first block's text. With two
  \<open>ToolUse\<close> blocks in the initial response and follow-up responses that ask for
  \<^verbatim>\<open>delete_files\<close>: no \<^verbatim>\<open>callTool\<close> is made for \<^verbatim>\<open>delete_files\<close>, and the model call after the
  response that asked for it is on a conversation whose only new turn is the result of
  \<^verbatim>\<open>count_files\<close>. That first follow-up is also sent while the \<^verbatim>\<open>count_files\<close> block of the
  initial response has no result turn yet.
\<close>

theorem followup_tool_use_unmatched_counterexample:
  "calls (processQuery (scripted two_tools_model named_host) new_MCPClient ()
      ''how many files'') =
     [ModelCall (initial_request new_MCPClient ''how many files'') (Inr two_tools_response),
      ToolCall ''list_files'' ''{}'' (Inr (ToolResult ''result of list_files'')),
      ModelCall (followup_request
                   [\<lparr>role = User, content = ''how many files''\<rparr>,
                    \<lparr>role = User, content = ''result of list_files''\<rparr>])
        (Inr [Text ''ok'', ToolUse ''delete_files'' ''{}'']),
      ToolCall ''count_files'' ''{}'' (Inr (ToolResult ''result of count_files'')),
      ModelCall (followup_request
                   [\<lparr>role = User, content = ''how many files''\<rparr>,
                    \<lparr>role = User, content = ''result of list_files''\<rparr>,
                    \<lparr>role = User, content = ''result of count_files''\<rparr>])
        (Inr [Text ''ok'', ToolUse ''delete_files'' ''{}''])] \<and>
   (''delete_files'', ''{}'') \<notin> set (tool_calls (calls (processQuery
      (scripted two_tools_model named_host) new_MCPClient () ''how many files'')))"
  by (simp add: run_simps two_tools_model_def named_host_def two_tools_response_def)

text \<open>
  C7, amended. In every run of \<^verbatim>\<open>processQuery\<close>, every conversation sent to the model (by
  the initial call and by every follow-up call) is not empty and ends with a \<open>User\<close> turn.
  The first call is the initial model call on the query as one \<open>User\<close> turn; if it throws,
  it is the only call. Otherwise the \<open>ToolUse\<close> blocks of the initial response are handled
  one at a time, in their order: each one that the loop reaches is passed to \<^verbatim>\<open>callTool\<close>,
  and when that returns, exactly one \<open>User\<close> turn with its result is appended to the
  conversation and the next model call, that block's own follow-up, is made on the
  conversation so extended. The loop goes on to the next block only after a follow-up
  response with a first block; the calls are those and no others.
\<close>

theorem processQuery_conversation:
  assumes "messages_create env w (initial_request this query) = (r0, w1)"
  shows "\<exists>evs. calls (processQuery env this w query) =
             ModelCall (initial_request this query) r0 # evs \<and>
           rq_messages (initial_request this query) = [\<lparr>role = User, content = query\<rparr>] \<and>
           (case r0 of
              Inl e \<Rightarrow> evs = []
            | Inr response \<Rightarrow>
                blocks_matched [\<lparr>role = User, content = query\<rparr>] response evs) \<and>
           list_all ends_with_user
             (sent_conversations (calls (processQuery env this w query)))"
proof -
  let ?req = "initial_request this query"
  have rq: "rq_messages ?req = [\<lparr>role = User, content = query\<rparr>]"
    by (simp add: initial_request_def)
  show ?thesis
  proof (cases r0)
    case (Inl e0)
    with assms rq show ?thesis by (simp add: processQuery_def ends_with_user_def)
  next
    case (Inr response)
    let ?st = "\<lparr>messages = rq_messages ?req, finalText = [], toolResults = [], world = w1\<rparr>"
    obtain r st' evs where d: "dispatch env ?st response = (r, st', evs)"
      by (cases "dispatch env ?st response") auto
    from assms Inr d
    have c: "calls (processQuery env this w query) = ModelCall ?req (Inr response) # evs"
      by (cases r) (simp_all add: processQuery_def)
    from dispatch_blocks_matched [OF d] rq
    have b: "blocks_matched [\<lparr>role = User, content = query\<rparr>] response evs" by simp
    from dispatch_ends_with_user [OF d] rq c
    have u: "list_all ends_with_user
               (sent_conversations (calls (processQuery env this w query)))"
      by (simp add: ends_with_user_def)
    from c rq b u Inr show ?thesis by simp
  qed
qed

theorem processQuery_conversation_witness:
  "blocks_matched [\<lparr>role = User, content = ''how many files''\<rparr>] two_tools_response
     (tl (calls (processQuery (scripted two_tools_model named_host) new_MCPClient ()
        ''how many files''))) \<and>
   sent_conversations
     (calls (processQuery (scripted two_tools_model named_host) new_MCPClient ()
        ''how many files'')) =
     [[\<lparr>role = User, content = ''how many files''\<rparr>],
      [\<lparr>role = User, content = ''how many files''\<rparr>,
       \<lparr>role = User, content = ''result of list_files''\<rparr>],
      [\<lparr>role = User, content = ''how many files''\<rparr>,
       \<lparr>role = User, content = ''result of list_files''\<rparr>,
       \<lparr>role = User, content = ''result of count_files''\<rparr>]] \<and>
   list_all ends_with_user (sent_conversations
     (calls (processQuery (scripted two_tools_model named_host) new_MCPClient ()
        ''how many files'')))"
proof -
  let ?env = "scripted two_tools_model named_host"
  let ?run = "processQuery ?env new_MCPClient () ''how many files''"
  have init: "messages_create ?env () (initial_request new_MCPClient ''how many files'') =
                (Inr two_tools_response, ())"
    by (simp add: scripted_def two_tools_model_def initial_request_def two_tools_response_def)
  obtain evs
    where c: "calls ?run =
                ModelCall (initial_request new_MCPClient ''how many files'')
                  (Inr two_tools_response) # evs"
    and m: "blocks_matched [\<lparr>role = User, content = ''how many files''\<rparr>]
              two_tools_response evs"
    and u: "list_all ends_with_user (sent_conversations (calls ?run))"
    using processQuery_conversation [OF init] by auto
  from c m
  have 1: "blocks_matched [\<lparr>role = User, content = ''how many files''\<rparr>] two_tools_response
             (tl (calls ?run))"
    by simp
  have 2: "sent_conversations (calls ?run) =
     [[\<lparr>role = User, content = ''how many files''\<rparr>],
      [\<lparr>role = User, content = ''how many files''\<rparr>,
       \<lparr>role = User, content = ''result of list_files''\<rparr>],
      [\<lparr>role = User, content = ''how many files''\<rparr>,
       \<lparr>role = User, content = ''result of list_files''\<rparr>,
       \<lparr>role = User, content = ''result of count_files''\<rparr>]]"
    by (simp add: run_simps two_tools_model_def named_host_def)
  from 1 2 u show ?thesis by (intro conjI)
qed

subsection \<open>The tool catalog\<close>

text \<open>
  C10. \<^verbatim>\<open>processQuery\<close> leaves the fields of the client as they were, whatever the outcome:
  the tool catalog after the call is the catalog before it, and the initial model call of
  a next query carries that same catalog.
\<close>

theorem processQuery_keeps_tools:
  "this_after (processQuery env this w query) = this \<and>
   tools (this_after (processQuery env this w query)) = tools this \<and>
   (\<exists>r0 evs. calls (processQuery env (this_after (processQuery env this w query))
                       (world_after (processQuery env this w query)) query2) =
        ModelCall \<lparr>rq_model = MODEL, rq_max_tokens = 1000,
                   rq_messages = [\<lparr>role = User, content = query2\<rparr>],
                   rq_tools = Some (tools this)\<rparr> r0 # evs)"
proof -
  have t: "this_after (processQuery env this w query) = this" for w query
    by (auto simp: processQuery_def Let_def split: prod.splits sum.splits option.splits)
  show ?thesis
    using processQuery_calls [of env this "world_after (processQuery env this w query)" query2]
    by (simp add: t initial_request_def)
qed

text \<open>A failed query and the query after it.\<close>

theorem processQuery_keeps_tools_witness:
  "outcome (processQuery (scripted two_tools_model failing_host) listing_client ()
      ''how many files'') = Inl (ToolHostError ''tool host unreachable'') \<and>
   this_after (processQuery (scripted two_tools_model failing_host) listing_client ()
      ''how many files'') = listing_client \<and>
   hd (calls (processQuery (scripted two_tools_model failing_host) listing_client ()
      ''again'')) =
     ModelCall \<lparr>rq_model = MODEL, rq_max_tokens = 1000,
                rq_messages = [\<lparr>role = User, content = ''again''\<rparr>],
                rq_tools = Some (tools listing_client)\<rparr> (Inr two_tools_response)"
proof -
  let ?env = "scripted two_tools_model failing_host"
  note k = processQuery_keeps_tools [of ?env listing_client "()" "''how many files''" "''again''"]
  have o: "outcome (processQuery ?env listing_client () ''how many files'') =
             Inl (ToolHostError ''tool host unreachable'')"
    by (simp add: run_simps two_tools_model_def failing_host_def)
  have h: "hd (calls (processQuery ?env listing_client () ''again'')) =
     ModelCall \<lparr>rq_model = MODEL, rq_max_tokens = 1000,
                rq_messages = [\<lparr>role = User, content = ''again''\<rparr>],
                rq_tools = Some (tools listing_client)\<rparr> (Inr two_tools_response)"
    by (simp add: run_simps two_tools_model_def failing_host_def two_tools_response_def)
  from k [THEN conjunct1] o h show ?thesis by (intro conjI)
qed

subsection \<open>Closing\<close>

text \<open>
  \<^verbatim>\<open>cleanup\<close> awaits \<^verbatim>\<open>mcp.close()\<close> and does nothing else: it throws what \<^verbatim>\<open>close\<close> throws
  and leaves the world that \<^verbatim>\<open>close\<close> leaves, on every call. What a second \<^verbatim>\<open>cleanup\<close> does
  is what the SDK's \<^verbatim>\<open>close\<close> does on a client that is closed already.
\<close>

lemma cleanup_is_close:
  "cleanup env this w =
     \<lparr>outcome = fst (close env w), this_after = this, world_after = snd (close env w),
      calls = [Close (fst (close env w))]\<rparr>"
  by (simp add: cleanup_def split: prod.splits)

end
